theory Spec2Isabelle
  imports Main
begin

section \<open>Data model of menu.py\<close>

text \<open>
  The catalog \<open>menu_data\<close> is the dictionary read from \<open>list_menu.json\<close>: it maps a
  category name to a list of items. It is a map, so that \<open>menu_info["proteins"]\<close>
  on a catalog without that key is the \<open>KeyError\<close> Python raises. An item is a JSON
  object with the four keys \<open>send_item\<close> reads (\<open>name\<close>, \<open>info\<close>, \<open>calories\<close>,
  \<open>image\<close>); it is a record of these fields, so \<open>item["name"]\<close> is the field \<open>name\<close>.
\<close>

record item =
  name :: string
  info :: string
  calories :: string
  image :: string

type_synonym catalog = "string \<rightharpoonup> item list"

type_synonym selection = "(string \<times> item) list"

text \<open>A calendar date, as \<open>date.today()\<close> returns it, is its day number (\<open>toordinal\<close>).\<close>

type_synonym date = nat

text \<open>
  The exceptions the two functions can raise: \<open>KeyError\<close> from a dictionary lookup,
  \<open>IndexError\<close> from \<open>random.choice\<close> on an empty sequence, and the \<open>ValueError\<close>
  of the pairing rule, with its message.
\<close>

datatype error = KeyError string | IndexError | ValueError string

text \<open>
  The module-level globals. \<open>menu_counter\<close> is a Python integer (unbounded);
  \<open>daily_menu\<close> and \<open>last_generated_date\<close> start as \<open>None\<close>.
\<close>

record state =
  menu_data :: catalog
  menu_counter :: int
  daily_menu :: "selection option"
  last_generated_date :: "date option"

text \<open>
  The string literals of the source are Russian text (with an emoji in each label);
  a string here is the list of the UTF-8 bytes of the literal. Python compares strings
  code point by code point, which is equality of the UTF-8 bytes.
\<close>

definition LABEL_CHEAT :: string where
  "LABEL_CHEAT = [CHR 0xF0, CHR 0x9F, CHR 0xA5, CHR 0xAA, CHR 0x20, CHR 0xD0, CHR 0xA7,
     CHR 0xD0, CHR 0xB8, CHR 0xD1, CHR 0x82, CHR 0xD0, CHR 0xBC, CHR 0xD0, CHR 0xB8,
     CHR 0xD0, CHR 0xBB]"

definition LABEL_MEAT :: string where
  "LABEL_MEAT = [CHR 0xF0, CHR 0x9F, CHR 0x8D, CHR 0x96, CHR 0x20, CHR 0xD0, CHR 0x9C,
     CHR 0xD1, CHR 0x8F, CHR 0xD1, CHR 0x81, CHR 0xD0, CHR 0xBD, CHR 0xD0, CHR 0xBE,
     CHR 0xD0, CHR 0xB5]"

definition LABEL_SALAD :: string where
  "LABEL_SALAD = [CHR 0xF0, CHR 0x9F, CHR 0xA5, CHR 0x97, CHR 0x20, CHR 0xD0, CHR 0xA1,
     CHR 0xD0, CHR 0xB0, CHR 0xD0, CHR 0xBB, CHR 0xD0, CHR 0xB0, CHR 0xD1, CHR 0x82]"

definition LABEL_GARNISH :: string where
  "LABEL_GARNISH = [CHR 0xF0, CHR 0x9F, CHR 0xA5, CHR 0x94, CHR 0x20, CHR 0xD0, CHR 0x93,
     CHR 0xD0, CHR 0xB0, CHR 0xD1, CHR 0x80, CHR 0xD0, CHR 0xBD, CHR 0xD0, CHR 0xB8,
     CHR 0xD1, CHR 0x80]"

definition LABEL_SAUCE :: string where
  "LABEL_SAUCE = [CHR 0xF0, CHR 0x9F, CHR 0x8D, CHR 0xAF, CHR 0x20, CHR 0xD0, CHR 0xA1,
     CHR 0xD0, CHR 0xBE, CHR 0xD1, CHR 0x83, CHR 0xD1, CHR 0x81]"

text \<open>The garnish name of the pairing rule (Borscht) and the sauce it requires (Sour Cream).\<close>

definition BORSCHT :: string where
  "BORSCHT = [CHR 0xD0, CHR 0x91, CHR 0xD0, CHR 0xBE, CHR 0xD1, CHR 0x80, CHR 0xD1, CHR 0x89]"

definition SOUR_CREAM :: string where
  "SOUR_CREAM = [CHR 0xD0, CHR 0xA1, CHR 0xD0, CHR 0xBC, CHR 0xD0, CHR 0xB5, CHR 0xD1,
     CHR 0x82, CHR 0xD0, CHR 0xB0, CHR 0xD0, CHR 0xBD, CHR 0xD0, CHR 0xB0]"

text \<open>The message of the \<open>ValueError\<close>: "Sour Cream not found in the list of sauces!".\<close>

definition SOUR_CREAM_NOT_FOUND :: string where
  "SOUR_CREAM_NOT_FOUND = SOUR_CREAM @ [CHR 0x20, CHR 0xD0, CHR 0xBD, CHR 0xD0, CHR 0xB5,
     CHR 0x20, CHR 0xD0, CHR 0xBD, CHR 0xD0, CHR 0xB0, CHR 0xD0, CHR 0xB9, CHR 0xD0,
     CHR 0xB4, CHR 0xD0, CHR 0xB5, CHR 0xD0, CHR 0xBD, CHR 0xD0, CHR 0xB0, CHR 0x20,
     CHR 0xD0, CHR 0xB2, CHR 0x20, CHR 0xD1, CHR 0x81, CHR 0xD0, CHR 0xBF, CHR 0xD0,
     CHR 0xB8, CHR 0xD1, CHR 0x81, CHR 0xD0, CHR 0xBA, CHR 0xD0, CHR 0xB5, CHR 0x20,
     CHR 0xD1, CHR 0x81, CHR 0xD0, CHR 0xBE, CHR 0xD1, CHR 0x83, CHR 0xD1, CHR 0x81,
     CHR 0xD0, CHR 0xBE, CHR 0xD0, CHR 0xB2, CHR 0x21]"

section \<open>Library operations\<close>

text \<open>\<open>menu_info[key]\<close>: the value stored under the key, or \<open>KeyError\<close>.\<close>

definition getitem :: "catalog \<Rightarrow> string \<Rightarrow> error + item list" where
  "getitem menu_info key =
     (case menu_info key of None \<Rightarrow> Inl (KeyError key) | Some seq \<Rightarrow> Inr seq)"

text \<open>
  \<open>random.choice(seq)\<close> raises \<open>IndexError\<close> on an empty sequence and otherwise returns
  \<open>seq[i]\<close> for an index \<open>i\<close> below \<open>len(seq)\<close> that the generator picks. The generator
  is outside the program: its draw is the argument \<open>r\<close>, reduced below the length, so
  every index is the outcome of some draw and every draw gives an index in range.
\<close>

definition choice :: "nat \<Rightarrow> 'a list \<Rightarrow> error + 'a" where
  "choice r seq = (if seq = [] then Inl IndexError else Inr (seq ! (r mod length seq)))"

text \<open>
  One invocation of \<open>create_daily_menu\<close> calls \<open>random.choice\<close> at most twice;
  \<open>rnd 0\<close> is the draw of its first call and \<open>rnd 1\<close> the draw of its second.
\<close>

type_synonym draws = "nat \<Rightarrow> nat"

section \<open>The rotation engine\<close>

text \<open>
  \<open>create_daily_menu\<close> returns the selection or the exception raised, together with
  the globals as the call leaves them: the increment of \<open>menu_counter\<close> is done before
  anything can raise, and the reset to 0 only after the appetizer has been chosen.
  \<open>next((s for s in sauces if s["name"] == ...), None)\<close> is \<open>find\<close>: the first sauce
  with that name, or \<open>None\<close>. An item found has four keys, so \<open>not sauce_item\<close> holds
  exactly when the search gave \<open>None\<close>.
\<close>

definition create_daily_menu :: "draws \<Rightarrow> catalog \<Rightarrow> state \<Rightarrow> (error + selection) \<times> state" where
  "create_daily_menu rnd menu_info s =
     (let s1 = s\<lparr>menu_counter := menu_counter s + 1\<rparr> in
      if menu_counter s1 mod 21 = 0 then
        (case getitem menu_info ''appetizers'' of
           Inl e \<Rightarrow> (Inl e, s1)
         | Inr appetizers \<Rightarrow>
             (case choice (rnd 0) appetizers of
                Inl e \<Rightarrow> (Inl e, s1)
              | Inr appetizers_item \<Rightarrow>
                  (Inr [(LABEL_CHEAT, appetizers_item)], s1\<lparr>menu_counter := 0\<rparr>)))
      else if menu_counter s1 mod 4 \<noteq> 0 then
        (case getitem menu_info ''proteins'' of
           Inl e \<Rightarrow> (Inl e, s1)
         | Inr proteins \<Rightarrow>
             (case choice (rnd 0) proteins of
                Inl e \<Rightarrow> (Inl e, s1)
              | Inr meat_item \<Rightarrow>
                  (case getitem menu_info ''fiber'' of
                     Inl e \<Rightarrow> (Inl e, s1)
                   | Inr fiber \<Rightarrow>
                       (case choice (rnd 1) fiber of
                          Inl e \<Rightarrow> (Inl e, s1)
                        | Inr salad_item \<Rightarrow>
                            (Inr [(LABEL_MEAT, meat_item), (LABEL_SALAD, salad_item)], s1)))))
      else
        (case getitem menu_info ''carbohydrates'' of
           Inl e \<Rightarrow> (Inl e, s1)
         | Inr carbohydrates \<Rightarrow>
             (case choice (rnd 0) carbohydrates of
                Inl e \<Rightarrow> (Inl e, s1)
              | Inr garnish_item \<Rightarrow>
                  if name garnish_item = BORSCHT then
                    (case getitem menu_info ''sauces'' of
                       Inl e \<Rightarrow> (Inl e, s1)
                     | Inr sauces \<Rightarrow>
                         (case find (\<lambda>sc. name sc = SOUR_CREAM) sauces of
                            None \<Rightarrow> (Inl (ValueError SOUR_CREAM_NOT_FOUND), s1)
                          | Some sauce_item \<Rightarrow>
                              (Inr [(LABEL_GARNISH, garnish_item), (LABEL_SAUCE, sauce_item)], s1)))
                  else
                    (case getitem menu_info ''sauces'' of
                       Inl e \<Rightarrow> (Inl e, s1)
                     | Inr sauces \<Rightarrow>
                         (case choice (rnd 1) sauces of
                            Inl e \<Rightarrow> (Inl e, s1)
                          | Inr sauce_item \<Rightarrow>
                              (Inr [(LABEL_GARNISH, garnish_item), (LABEL_SAUCE, sauce_item)], s1))))))"

section \<open>The daily cache\<close>

text \<open>
  \<open>generate_daily_menu_if_needed\<close> reads the date (the argument \<open>today\<close>), returns the
  cached menu when it was generated on that date, and otherwise calls the rotation
  engine. The two cache globals are assigned only after \<open>create_daily_menu\<close> has
  returned: when it raises, the exception propagates and they keep their values.
\<close>

definition generate_daily_menu_if_needed ::
    "date \<Rightarrow> draws \<Rightarrow> catalog \<Rightarrow> state \<Rightarrow> (error + selection) \<times> state" where
  "generate_daily_menu_if_needed today rnd menu_info s =
     (if last_generated_date s = Some today \<and> daily_menu s \<noteq> None then
        (Inr (the (daily_menu s)), s)
      else
        (case create_daily_menu rnd menu_info s of
           (Inl e, s1) \<Rightarrow> (Inl e, s1)
         | (Inr menu, s1) \<Rightarrow>
             (Inr menu, s1\<lparr>daily_menu := Some menu, last_generated_date := Some today\<rparr>)))"

text \<open>
  The guard of the cache, \<open>last_generated_date == today and daily_menu is not None\<close>,
  as a predicate on the globals, and the two assignments that follow a call of the
  rotation engine that returned.
\<close>

definition is_cached :: "date \<Rightarrow> state \<Rightarrow> bool" where
  "is_cached today s = (last_generated_date s = Some today \<and> daily_menu s \<noteq> None)"

definition cache_result :: "date \<Rightarrow> (error + selection) \<times> state \<Rightarrow> (error + selection) \<times> state" where
  "cache_result today out =
     (case out of
        (Inl e, s1) \<Rightarrow> (Inl e, s1)
      | (Inr menu, s1) \<Rightarrow>
          (Inr menu, s1\<lparr>daily_menu := Some menu, last_generated_date := Some today\<rparr>))"

text \<open>
  The keys of the catalog that each branch of \<open>create_daily_menu\<close> reads, by the
  value \<open>c\<close> of the counter after the increment.
\<close>

definition active_categories :: "int \<Rightarrow> string list" where
  "active_categories c =
     (if c mod 21 = 0 then [''appetizers'']
      else if c mod 4 \<noteq> 0 then [''proteins'', ''fiber'']
      else [''carbohydrates'', ''sauces''])"

section \<open>Sequences of calls\<close>

text \<open>
  A sequence of invocations of the rotation engine, each with its own draws and
  catalog argument, run from a state of the globals: the outcome of every call, in
  order. A call that raised leaves the globals as they were at the \<open>raise\<close>, and the
  next call starts from there.
\<close>

fun invocations :: "(draws \<times> catalog) list \<Rightarrow> state \<Rightarrow> ((error + selection) \<times> state) list" where
  "invocations [] s = []"
| "invocations ((rnd, menu_info) # calls) s =
     (let out = create_daily_menu rnd menu_info s in out # invocations calls (snd out))"

text \<open>
  The counter along such a sequence, started at \<open>c\<close>: a call that returns a selection
  when \<open>c + 1\<close> is a multiple of 21 leaves it at 0, every other call at \<open>c + 1\<close>.
\<close>

fun counter_follows :: "int \<Rightarrow> ((error + selection) \<times> state) list \<Rightarrow> bool" where
  "counter_follows c [] = True"
| "counter_follows c (out # outs) =
     (menu_counter (snd out) = (if (c + 1) mod 21 = 0 \<and> \<not> isl (fst out) then 0 else c + 1)
      \<and> counter_follows (menu_counter (snd out)) outs)"

text \<open>A sequence of calls of \<open>generate_daily_menu_if_needed\<close> that all read the same date.\<close>

fun requests :: "date \<Rightarrow> (draws \<times> catalog) list \<Rightarrow> state \<Rightarrow> ((error + selection) \<times> state) list" where
  "requests today [] s = []"
| "requests today ((rnd, menu_info) # calls) s =
     (let out = generate_daily_menu_if_needed today rnd menu_info s
      in out # requests today calls (snd out))"

section \<open>Example data\<close>

text \<open>The globals as the module initialises them, for a catalog read from the file.\<close>

definition initial_state :: "catalog \<Rightarrow> state" where
  "initial_state menu_info =
     \<lparr>menu_data = menu_info, menu_counter = 0, daily_menu = None, last_generated_date = None\<rparr>"

definition dish :: "string \<Rightarrow> item" where
  "dish n = \<lparr>name = n, info = ''ingredients'', calories = ''250'', image = ''img/dish.jpg''\<rparr>"

definition example_catalog :: catalog where
  "example_catalog =
     [''appetizers'' \<mapsto> [dish ''Bruschetta'', dish ''Nachos''],
      ''proteins'' \<mapsto> [dish ''Chicken'', dish ''Beef'', dish ''Cod''],
      ''fiber'' \<mapsto> [dish ''Greek salad'', dish ''Coleslaw''],
      ''carbohydrates'' \<mapsto> [dish ''Rice'', dish BORSCHT],
      ''sauces'' \<mapsto> [dish ''Garlic Sauce'', dish SOUR_CREAM]]"

text \<open>A catalog with Borscht as the only garnish and no Sour Cream among the sauces.\<close>

definition borscht_catalog :: catalog where
  "borscht_catalog =
     [''appetizers'' \<mapsto> [dish ''Bruschetta''],
      ''proteins'' \<mapsto> [dish ''Chicken''],
      ''fiber'' \<mapsto> [dish ''Coleslaw''],
      ''carbohydrates'' \<mapsto> [dish BORSCHT],
      ''sauces'' \<mapsto> [dish ''Garlic Sauce'']]"

text \<open>The same catalog with Sour Cream as its second sauce.\<close>

definition pairing_catalog :: catalog where
  "pairing_catalog =
     borscht_catalog(''sauces'' \<mapsto> [dish ''Garlic Sauce'', dish SOUR_CREAM])"

text \<open>A catalog whose list of appetizers is empty.\<close>

definition no_appetizers_catalog :: catalog where
  "no_appetizers_catalog =
     [''appetizers'' \<mapsto> [],
      ''proteins'' \<mapsto> [dish ''Chicken''],
      ''fiber'' \<mapsto> [dish ''Coleslaw''],
      ''carbohydrates'' \<mapsto> [dish ''Rice''],
      ''sauces'' \<mapsto> [dish ''Garlic Sauce'']]"

text \<open>The globals with the counter at \<open>c\<close> and nothing cached.\<close>

definition fresh_state :: "catalog \<Rightarrow> int \<Rightarrow> state" where
  "fresh_state menu_info c = (initial_state menu_info)\<lparr>menu_counter := c\<rparr>"

text \<open>The globals after a menu has been generated on day 100, with the counter at 7.\<close>

definition warm_state :: state where
  "warm_state =
     \<lparr>menu_data = example_catalog, menu_counter = 7,
      daily_menu = Some [(LABEL_MEAT, dish ''Beef''), (LABEL_SALAD, dish ''Coleslaw'')],
      last_generated_date = Some 100\<rparr>"

section \<open>The branches of the rotation engine\<close>

lemma choice_nonempty:
  "seq \<noteq> [] \<Longrightarrow> choice r seq = Inr (seq ! (r mod length seq))"
  by (simp add: choice_def)

lemma choice_member: "seq \<noteq> [] \<Longrightarrow> seq ! (r mod length seq) \<in> set seq"
  by simp

lemma choice_empty: "choice r [] = Inl IndexError"
  by (simp add: choice_def)

lemma create_cheat_branch:
  assumes "(menu_counter s + 1) mod 21 = 0"
  shows "create_daily_menu rnd menu_info s =
     (case getitem menu_info ''appetizers'' of
        Inl e \<Rightarrow> (Inl e, s\<lparr>menu_counter := menu_counter s + 1\<rparr>)
      | Inr appetizers \<Rightarrow>
          (case choice (rnd 0) appetizers of
             Inl e \<Rightarrow> (Inl e, s\<lparr>menu_counter := menu_counter s + 1\<rparr>)
           | Inr a \<Rightarrow> (Inr [(LABEL_CHEAT, a)], s\<lparr>menu_counter := 0\<rparr>)))"
  using assms by (simp add: create_daily_menu_def Let_def split: sum.splits)

lemma create_protein_branch:
  assumes "(menu_counter s + 1) mod 21 \<noteq> 0" "(menu_counter s + 1) mod 4 \<noteq> 0"
  shows "create_daily_menu rnd menu_info s =
     (case getitem menu_info ''proteins'' of
        Inl e \<Rightarrow> (Inl e, s\<lparr>menu_counter := menu_counter s + 1\<rparr>)
      | Inr proteins \<Rightarrow>
          (case choice (rnd 0) proteins of
             Inl e \<Rightarrow> (Inl e, s\<lparr>menu_counter := menu_counter s + 1\<rparr>)
           | Inr p \<Rightarrow>
               (case getitem menu_info ''fiber'' of
                  Inl e \<Rightarrow> (Inl e, s\<lparr>menu_counter := menu_counter s + 1\<rparr>)
                | Inr fiber \<Rightarrow>
                    (case choice (rnd 1) fiber of
                       Inl e \<Rightarrow> (Inl e, s\<lparr>menu_counter := menu_counter s + 1\<rparr>)
                     | Inr f \<Rightarrow> (Inr [(LABEL_MEAT, p), (LABEL_SALAD, f)],
                                 s\<lparr>menu_counter := menu_counter s + 1\<rparr>)))))"
  using assms by (simp add: create_daily_menu_def Let_def split: sum.splits)

text \<open>Both arms of the pairing rule look \<open>sauces\<close> up first, so the lookup is shared here.\<close>

lemma create_garnish_branch:
  assumes "(menu_counter s + 1) mod 21 \<noteq> 0" "(menu_counter s + 1) mod 4 = 0"
  shows "create_daily_menu rnd menu_info s =
     (case getitem menu_info ''carbohydrates'' of
        Inl e \<Rightarrow> (Inl e, s\<lparr>menu_counter := menu_counter s + 1\<rparr>)
      | Inr carbohydrates \<Rightarrow>
          (case choice (rnd 0) carbohydrates of
             Inl e \<Rightarrow> (Inl e, s\<lparr>menu_counter := menu_counter s + 1\<rparr>)
           | Inr g \<Rightarrow>
               (case getitem menu_info ''sauces'' of
                  Inl e \<Rightarrow> (Inl e, s\<lparr>menu_counter := menu_counter s + 1\<rparr>)
                | Inr sauces \<Rightarrow>
                    if name g = BORSCHT then
                      (case find (\<lambda>sc. name sc = SOUR_CREAM) sauces of
                         None \<Rightarrow> (Inl (ValueError SOUR_CREAM_NOT_FOUND),
                                  s\<lparr>menu_counter := menu_counter s + 1\<rparr>)
                       | Some sc \<Rightarrow> (Inr [(LABEL_GARNISH, g), (LABEL_SAUCE, sc)],
                                    s\<lparr>menu_counter := menu_counter s + 1\<rparr>))
                    else
                      (case choice (rnd 1) sauces of
                         Inl e \<Rightarrow> (Inl e, s\<lparr>menu_counter := menu_counter s + 1\<rparr>)
                       | Inr sc \<Rightarrow> (Inr [(LABEL_GARNISH, g), (LABEL_SAUCE, sc)],
                                   s\<lparr>menu_counter := menu_counter s + 1\<rparr>)))))"
  using assms by (simp add: create_daily_menu_def Let_def split: sum.splits)

section \<open>The cheat meal\<close>

text \<open>
  Claim C1. When the counter after the increment is a multiple of 21 and the catalog
  has a non-empty \<open>appetizers\<close> list, \<open>create_daily_menu\<close> returns one pair, labelled
  as the cheat meal, whose item is an element of \<open>appetizers\<close>, and leaves the counter
  at 0 (all other globals as they were). This holds for every integer counter, so in
  particular for the non-negative ones.
\<close>

theorem cheat_meal_every_21st:
  assumes "(menu_counter s + 1) mod 21 = 0"
    and "menu_info ''appetizers'' = Some appetizers"
    and "appetizers \<noteq> []"
  shows "\<exists>a \<in> set appetizers.
           create_daily_menu rnd menu_info s = (Inr [(LABEL_CHEAT, a)], s\<lparr>menu_counter := 0\<rparr>)"
proof -
  let ?a = "appetizers ! (rnd 0 mod length appetizers)"
  have "create_daily_menu rnd menu_info s = (Inr [(LABEL_CHEAT, ?a)], s\<lparr>menu_counter := 0\<rparr>)"
    using assms by (simp add: create_cheat_branch getitem_def choice_nonempty)
  moreover have "?a \<in> set appetizers"
    using assms(3) by (rule choice_member)
  ultimately show ?thesis by blast
qed

theorem cheat_meal_every_21st_witness:
  "(20 + 1) mod 21 = (0::int) \<and>
   (\<exists>a \<in> set [dish ''Bruschetta'', dish ''Nachos''].
      create_daily_menu (\<lambda>k. 3) example_catalog
        ((initial_state example_catalog)\<lparr>menu_counter := 20\<rparr>) =
      (Inr [(LABEL_CHEAT, a)], (initial_state example_catalog)\<lparr>menu_counter := 0\<rparr>))"
  using cheat_meal_every_21st
    [of "(initial_state example_catalog)\<lparr>menu_counter := 20\<rparr>" example_catalog
        "[dish ''Bruschetta'', dish ''Nachos'']" "\<lambda>k. 3"]
  by (simp add: example_catalog_def)

section \<open>Protein and salad\<close>

text \<open>
  Claim C2. When the counter after the increment is a multiple of neither 21 nor 4 and
  the catalog has non-empty \<open>proteins\<close> and \<open>fiber\<close> lists, \<open>create_daily_menu\<close>
  returns two pairs: the first labelled as the meat dish with an element of
  \<open>proteins\<close>, the second labelled as the salad with an element of \<open>fiber\<close>; the
  counter afterwards is the old one plus 1.
\<close>

theorem protein_and_salad:
  assumes "(menu_counter s + 1) mod 21 \<noteq> 0"
    and "(menu_counter s + 1) mod 4 \<noteq> 0"
    and "menu_info ''proteins'' = Some proteins" and "proteins \<noteq> []"
    and "menu_info ''fiber'' = Some fiber" and "fiber \<noteq> []"
  shows "\<exists>p \<in> set proteins. \<exists>f \<in> set fiber.
           create_daily_menu rnd menu_info s =
             (Inr [(LABEL_MEAT, p), (LABEL_SALAD, f)], s\<lparr>menu_counter := menu_counter s + 1\<rparr>)"
proof -
  let ?p = "proteins ! (rnd 0 mod length proteins)"
  let ?f = "fiber ! (rnd 1 mod length fiber)"
  have "create_daily_menu rnd menu_info s =
          (Inr [(LABEL_MEAT, ?p), (LABEL_SALAD, ?f)], s\<lparr>menu_counter := menu_counter s + 1\<rparr>)"
    using assms by (simp add: create_protein_branch getitem_def choice_nonempty)
  moreover have "?p \<in> set proteins" using assms(4) by (rule choice_member)
  moreover have "?f \<in> set fiber" using assms(6) by (rule choice_member)
  ultimately show ?thesis by blast
qed

theorem protein_and_salad_witness:
  "(0 + 1) mod 21 \<noteq> (0::int) \<and> (0 + 1) mod 4 \<noteq> (0::int) \<and>
   (\<exists>p \<in> set [dish ''Chicken'', dish ''Beef'', dish ''Cod''].
    \<exists>f \<in> set [dish ''Greek salad'', dish ''Coleslaw''].
      create_daily_menu (\<lambda>k. 7) example_catalog (initial_state example_catalog) =
      (Inr [(LABEL_MEAT, p), (LABEL_SALAD, f)],
       (initial_state example_catalog)\<lparr>menu_counter := 1\<rparr>))"
  using protein_and_salad
    [of "initial_state example_catalog" example_catalog
        "[dish ''Chicken'', dish ''Beef'', dish ''Cod'']"
        "[dish ''Greek salad'', dish ''Coleslaw'']" "\<lambda>k. 7"]
  by (simp add: example_catalog_def initial_state_def)

section \<open>Garnish and sauce\<close>

lemma find_Some_first: "find P xs = Some x \<Longrightarrow> x \<in> set xs \<and> P x"
  by (induction xs) (auto split: if_splits)

text \<open>
  Claim C3, as stated, fails: a catalog with non-empty \<open>carbohydrates\<close> and \<open>sauces\<close>
  whose only garnish is Borscht and whose sauces do not include Sour Cream makes the
  call on a multiple of 4 raise instead of returning two pairs.
\<close>

theorem garnish_without_sour_cream_counterexample:
  "(3 + 1) mod 21 \<noteq> (0::int) \<and> (3 + 1) mod 4 = (0::int) \<and>
   borscht_catalog ''carbohydrates'' = Some [dish BORSCHT] \<and> [dish BORSCHT] \<noteq> [] \<and>
   borscht_catalog ''sauces'' = Some [dish ''Garlic Sauce''] \<and> [dish ''Garlic Sauce''] \<noteq> [] \<and>
   fst (create_daily_menu (\<lambda>k. 0) borscht_catalog
          ((initial_state borscht_catalog)\<lparr>menu_counter := 3\<rparr>)) =
     Inl (ValueError SOUR_CREAM_NOT_FOUND)"
  by (simp add: create_garnish_branch getitem_def choice_def borscht_catalog_def dish_def
      BORSCHT_def SOUR_CREAM_def)

text \<open>
  Claim C3, amended. When the counter after the increment is a multiple of 4 and not
  of 21, and the catalog has non-empty \<open>carbohydrates\<close> and \<open>sauces\<close> lists, the
  garnish \<open>g\<close> is an element of \<open>carbohydrates\<close> and
  \<^item> if \<open>g\<close> is named Borscht and no sauce is named Sour Cream, the call raises the
    \<open>ValueError\<close> of the pairing rule;
  \<^item> otherwise it returns exactly two pairs, \<open>g\<close> labelled as garnish and a sauce from
    \<open>sauces\<close> labelled as sauce, and when \<open>g\<close> is named Borscht that sauce is the
    first item of \<open>sauces\<close> named Sour Cream.
  In both cases the counter afterwards is the old one plus 1.
\<close>

theorem garnish_and_sauce:
  assumes "(menu_counter s + 1) mod 21 \<noteq> 0"
    and "(menu_counter s + 1) mod 4 = 0"
    and "menu_info ''carbohydrates'' = Some carbohydrates" and "carbohydrates \<noteq> []"
    and "menu_info ''sauces'' = Some sauces" and "sauces \<noteq> []"
  shows "\<exists>g \<in> set carbohydrates.
           if name g = BORSCHT \<and> (\<forall>sc \<in> set sauces. name sc \<noteq> SOUR_CREAM) then
             create_daily_menu rnd menu_info s =
               (Inl (ValueError SOUR_CREAM_NOT_FOUND), s\<lparr>menu_counter := menu_counter s + 1\<rparr>)
           else
             (\<exists>sc \<in> set sauces.
                create_daily_menu rnd menu_info s =
                  (Inr [(LABEL_GARNISH, g), (LABEL_SAUCE, sc)],
                   s\<lparr>menu_counter := menu_counter s + 1\<rparr>)
                \<and> (name g = BORSCHT \<longrightarrow>
                     find (\<lambda>x. name x = SOUR_CREAM) sauces = Some sc \<and> name sc = SOUR_CREAM))"
proof -
  let ?g = "carbohydrates ! (rnd 0 mod length carbohydrates)"
  let ?s1 = "s\<lparr>menu_counter := menu_counter s + 1\<rparr>"
  have g: "?g \<in> set carbohydrates" using assms(4) by (rule choice_member)
  have eq: "create_daily_menu rnd menu_info s =
      (if name ?g = BORSCHT then
         (case find (\<lambda>sc. name sc = SOUR_CREAM) sauces of
            None \<Rightarrow> (Inl (ValueError SOUR_CREAM_NOT_FOUND), ?s1)
          | Some sc \<Rightarrow> (Inr [(LABEL_GARNISH, ?g), (LABEL_SAUCE, sc)], ?s1))
       else (Inr [(LABEL_GARNISH, ?g), (LABEL_SAUCE, sauces ! (rnd 1 mod length sauces))], ?s1))"
    using assms by (simp add: create_garnish_branch getitem_def choice_nonempty)
  show ?thesis
  proof (cases "name ?g = BORSCHT")
    case False
    have "sauces ! (rnd 1 mod length sauces) \<in> set sauces"
      using assms(6) by (rule choice_member)
    with False eq g show ?thesis by (intro bexI[of _ ?g]) auto
  next
    case True
    show ?thesis
    proof (cases "find (\<lambda>sc. name sc = SOUR_CREAM) sauces")
      case None
      then have "\<forall>sc \<in> set sauces. name sc \<noteq> SOUR_CREAM"
        by (simp add: find_None_iff)
      with True None eq g show ?thesis by (intro bexI[of _ ?g]) auto
    next
      case (Some sc)
      then have sc: "sc \<in> set sauces" "name sc = SOUR_CREAM"
        using find_Some_first[of "\<lambda>sc. name sc = SOUR_CREAM" sauces sc] by auto
      with True Some eq g show ?thesis by (intro bexI[of _ ?g]) auto
    qed
  qed
qed

theorem garnish_and_sauce_witness:
  "(3 + 1) mod 21 \<noteq> (0::int) \<and> (3 + 1) mod 4 = (0::int) \<and>
   create_daily_menu (\<lambda>k. 5) pairing_catalog ((initial_state pairing_catalog)\<lparr>menu_counter := 3\<rparr>) =
     (Inr [(LABEL_GARNISH, dish BORSCHT), (LABEL_SAUCE, dish SOUR_CREAM)],
      (initial_state pairing_catalog)\<lparr>menu_counter := 4\<rparr>)"
  using garnish_and_sauce
    [of "(initial_state pairing_catalog)\<lparr>menu_counter := 3\<rparr>" pairing_catalog "[dish BORSCHT]"
        "[dish ''Garlic Sauce'', dish SOUR_CREAM]" "\<lambda>k. 5"]
  by (simp add: pairing_catalog_def borscht_catalog_def initial_state_def dish_def
      BORSCHT_def SOUR_CREAM_def)

section \<open>The pairing rule as a configuration error\<close>

text \<open>
  Claim C4. On the garnish branch, when the garnish chosen from \<open>carbohydrates\<close> is
  named Borscht and no item of \<open>sauces\<close> is named Sour Cream, \<open>create_daily_menu\<close>
  raises the \<open>ValueError\<close> with its message and returns no selection: the outcome is
  the error, whatever the draw for a random sauce would have been. The counter has
  been incremented.
\<close>

theorem borscht_needs_sour_cream:
  assumes "(menu_counter s + 1) mod 21 \<noteq> 0"
    and "(menu_counter s + 1) mod 4 = 0"
    and "menu_info ''carbohydrates'' = Some carbohydrates" and "carbohydrates \<noteq> []"
    and "name (carbohydrates ! (rnd 0 mod length carbohydrates)) = BORSCHT"
    and "menu_info ''sauces'' = Some sauces"
    and "\<forall>sc \<in> set sauces. name sc \<noteq> SOUR_CREAM"
  shows "create_daily_menu rnd menu_info s =
           (Inl (ValueError SOUR_CREAM_NOT_FOUND), s\<lparr>menu_counter := menu_counter s + 1\<rparr>)"
proof -
  have "find (\<lambda>sc. name sc = SOUR_CREAM) sauces = None"
    using assms(7) by (simp add: find_None_iff)
  then show ?thesis
    using assms by (simp add: create_garnish_branch getitem_def choice_nonempty)
qed

theorem borscht_needs_sour_cream_witness:
  "(7 + 1) mod 21 \<noteq> (0::int) \<and> (7 + 1) mod 4 = (0::int) \<and>
   create_daily_menu (\<lambda>k. 2) borscht_catalog ((initial_state borscht_catalog)\<lparr>menu_counter := 7\<rparr>) =
     (Inl (ValueError SOUR_CREAM_NOT_FOUND), (initial_state borscht_catalog)\<lparr>menu_counter := 8\<rparr>)"
  using borscht_needs_sour_cream
    [of "(initial_state borscht_catalog)\<lparr>menu_counter := 7\<rparr>" borscht_catalog "[dish BORSCHT]"
        "\<lambda>k. 2" "[dish ''Garlic Sauce'']"]
  by (simp add: borscht_catalog_def initial_state_def dish_def BORSCHT_def SOUR_CREAM_def)
section \<open>What a call changes\<close>

text \<open>The three branches, by the counter after the increment.\<close>

lemma branch_cases:
  obtains (cheat) "(menu_counter s + 1) mod 21 = 0"
  | (protein) "(menu_counter s + 1) mod 21 \<noteq> 0" "(menu_counter s + 1) mod 4 \<noteq> 0"
  | (garnish) "(menu_counter s + 1) mod 21 \<noteq> 0" "(menu_counter s + 1) mod 4 = 0"
  by (cases "(menu_counter s + 1) mod 21 = 0"; cases "(menu_counter s + 1) mod 4 = 0") auto

text \<open>
  The counter after a call: 0 when the call returned the cheat meal, the old counter
  plus 1 in every other case, also when the call raised.
\<close>

lemma create_counter:
  "menu_counter (snd (create_daily_menu rnd menu_info s)) =
     (if (menu_counter s + 1) mod 21 = 0 \<and> \<not> isl (fst (create_daily_menu rnd menu_info s))
      then 0 else menu_counter s + 1)"
proof (cases s rule: branch_cases)
  case cheat
  then show ?thesis
    by (auto simp: create_cheat_branch split: sum.splits)
next
  case protein
  then show ?thesis
    by (auto simp: create_protein_branch split: sum.splits)
next
  case garnish
  then show ?thesis
    by (auto simp: create_garnish_branch split: sum.splits option.splits)
qed

lemma create_changes_counter:
  "menu_counter (snd (create_daily_menu rnd menu_info s)) \<noteq> menu_counter s"
proof -
  have "menu_counter s \<noteq> 0" if "(menu_counter s + 1) mod 21 = 0"
    using that by auto
  then show ?thesis by (auto simp: create_counter)
qed

text \<open>Every global but the counter is as it was, whether the call returned or raised.\<close>

lemma create_frame:
  "snd (create_daily_menu rnd menu_info s) =
     s\<lparr>menu_counter := menu_counter (snd (create_daily_menu rnd menu_info s))\<rparr>"
proof (cases s rule: branch_cases)
  case cheat
  then show ?thesis
    by (auto simp: create_cheat_branch split: sum.splits)
next
  case protein
  then show ?thesis
    by (auto simp: create_protein_branch split: sum.splits)
next
  case garnish
  then show ?thesis
    by (auto simp: create_garnish_branch split: sum.splits option.splits)
qed

lemma create_keeps_cache:
  "daily_menu (snd (create_daily_menu rnd menu_info s)) = daily_menu s"
  "last_generated_date (snd (create_daily_menu rnd menu_info s)) = last_generated_date s"
  "menu_data (snd (create_daily_menu rnd menu_info s)) = menu_data s"
  by (subst create_frame, simp)+

lemma create_keeps_is_cached:
  "is_cached today (snd (create_daily_menu rnd menu_info s)) = is_cached today s"
  by (simp add: is_cached_def create_keeps_cache)

text \<open>
  Claim C10. A call of \<open>create_daily_menu\<close> changes no global but \<open>menu_counter\<close>:
  the globals after the call are the globals before it with a new counter, so the
  catalog \<open>menu_data\<close> and the two cache globals are unchanged. The catalog passed as
  \<open>menu_info\<close> is only read: the call returns no catalog, and items are taken from its
  lists by index. The state of the random generator belongs to the library and is not
  a global of the program; it is the argument \<open>rnd\<close> here.
\<close>

theorem only_counter_mutated:
  "snd (create_daily_menu rnd menu_info s) =
     s\<lparr>menu_counter := menu_counter (snd (create_daily_menu rnd menu_info s))\<rparr> \<and>
   menu_data (snd (create_daily_menu rnd menu_info s)) = menu_data s \<and>
   daily_menu (snd (create_daily_menu rnd menu_info s)) = daily_menu s \<and>
   last_generated_date (snd (create_daily_menu rnd menu_info s)) = last_generated_date s"
  using create_frame [of rnd menu_info s] create_keeps_cache [of rnd menu_info s] by simp

section \<open>Empty categories\<close>

lemma create_empty_category:
  assumes "key \<in> set (active_categories (menu_counter s + 1))"
    and "menu_info key = Some []"
  shows "isl (fst (create_daily_menu rnd menu_info s))"
proof (cases s rule: branch_cases)
  case cheat
  with assms show ?thesis
    by (simp add: active_categories_def create_cheat_branch getitem_def choice_empty)
next
  case protein
  with assms have "menu_info ''proteins'' = Some [] \<or> menu_info ''fiber'' = Some []"
    by (auto simp: active_categories_def)
  with protein show ?thesis
    by (auto simp: create_protein_branch getitem_def choice_empty split: sum.splits option.splits)
next
  case garnish
  with assms have "menu_info ''carbohydrates'' = Some [] \<or> menu_info ''sauces'' = Some []"
    by (auto simp: active_categories_def)
  with garnish show ?thesis
    by (auto simp: create_garnish_branch getitem_def choice_empty split: sum.splits option.splits)
qed

lemma choice_Inr_member: "choice r seq = Inr x \<Longrightarrow> x \<in> set seq"
  by (auto simp: choice_def split: if_splits)

lemma getitem_Inr: "getitem menu_info key = Inr seq \<Longrightarrow> menu_info key = Some seq"
  by (auto simp: getitem_def split: option.splits)

text \<open>
  A selection that is returned holds only items of the catalog's lists for the active
  branch: no call returns an item that is not in the catalog.
\<close>

lemma selection_items_from_catalog:
  assumes "fst (create_daily_menu rnd menu_info s) = Inr menu" "(l, i) \<in> set menu"
  shows "\<exists>key \<in> set (active_categories (menu_counter s + 1)). \<exists>seq.
           menu_info key = Some seq \<and> i \<in> set seq"
proof (cases s rule: branch_cases)
  case cheat
  with assms show ?thesis
    by (auto simp: active_categories_def create_cheat_branch split: sum.splits
        dest!: choice_Inr_member getitem_Inr)
next
  case protein
  with assms show ?thesis
    by (auto simp: active_categories_def create_protein_branch split: sum.splits
        dest!: choice_Inr_member getitem_Inr)
next
  case garnish
  with assms show ?thesis
    by (auto simp: active_categories_def create_garnish_branch
        split: sum.splits option.splits if_splits
        dest!: choice_Inr_member getitem_Inr find_Some_first)
qed

text \<open>
  Claim C9. When one of the categories the active branch reads is an empty list, the
  call raises: the outcome is an error (\<open>IndexError\<close> from \<open>random.choice\<close>, the
  \<open>ValueError\<close> of the pairing rule when the sauces are empty and the garnish is
  Borscht, or a \<open>KeyError\<close> when another category of the branch is missing), never a
  selection.
\<close>

theorem empty_category_raises:
  assumes "key \<in> set (active_categories (menu_counter s + 1))"
    and "menu_info key = Some []"
  shows "\<exists>e. fst (create_daily_menu rnd menu_info s) = Inl e"
proof -
  have "isl (fst (create_daily_menu rnd menu_info s))"
    using assms by (rule create_empty_category)
  then show ?thesis by (cases "fst (create_daily_menu rnd menu_info s)") auto
qed

lemma fresh_state_counter: "menu_counter (fresh_state menu_info c) = c"
  by (simp add: fresh_state_def)

lemma fresh_state_bump: "(fresh_state menu_info c)\<lparr>menu_counter := d\<rparr> = fresh_state menu_info d"
  by (simp add: fresh_state_def)

theorem empty_category_raises_witness:
  "''appetizers'' \<in> set (active_categories (20 + 1)) \<and>
   no_appetizers_catalog ''appetizers'' = Some [] \<and>
   (\<exists>e. fst (create_daily_menu (\<lambda>k. 0) no_appetizers_catalog (fresh_state no_appetizers_catalog 20)) = Inl e)"
proof -
  have key: "''appetizers'' \<in> set (active_categories (menu_counter (fresh_state no_appetizers_catalog 20) + 1))"
    by (simp add: active_categories_def fresh_state_counter)
  have empty: "no_appetizers_catalog ''appetizers'' = Some []"
    by (simp add: no_appetizers_catalog_def)
  from empty_category_raises
         [of "''appetizers''" "fresh_state no_appetizers_catalog 20" no_appetizers_catalog "\<lambda>k. 0", OF key empty]
       key empty
  show ?thesis by (simp add: fresh_state_counter)
qed

section \<open>Cache hits and misses\<close>

lemma generate_hit:
  "is_cached today s \<Longrightarrow>
     generate_daily_menu_if_needed today rnd menu_info s = (Inr (the (daily_menu s)), s)"
  by (simp add: generate_daily_menu_if_needed_def is_cached_def)

lemma generate_miss:
  "\<not> is_cached today s \<Longrightarrow>
     generate_daily_menu_if_needed today rnd menu_info s =
       cache_result today (create_daily_menu rnd menu_info s)"
  by (auto simp: generate_daily_menu_if_needed_def is_cached_def cache_result_def
      split: prod.splits sum.splits)

lemma cache_result_counter: "menu_counter (snd (cache_result today out)) = menu_counter (snd out)"
  by (cases out) (auto simp: cache_result_def split: sum.splits)

lemma cache_result_fst: "fst (cache_result today out) = fst out"
  by (cases out) (auto simp: cache_result_def split: sum.splits)

lemma generate_returned_is_cached:
  assumes "generate_daily_menu_if_needed today rnd menu_info s = (Inr menu, s1)"
  shows "is_cached today s1 \<and> daily_menu s1 = Some menu"
proof (cases "is_cached today s")
  case True
  with assms show ?thesis
    by (auto simp: generate_hit is_cached_def)
next
  case False
  with assms show ?thesis
    by (auto simp: generate_miss cache_result_def is_cached_def split: prod.splits sum.splits)
qed

section \<open>The counter along a sequence of calls\<close>

lemma invocations_counter:
  "counter_follows (menu_counter s) (invocations calls s)"
proof (induction calls arbitrary: s)
  case Nil
  show ?case by simp
next
  case (Cons call calls)
  obtain rnd menu_info where call: "call = (rnd, menu_info)" by (cases call)
  let ?out = "create_daily_menu rnd menu_info s"
  have "counter_follows (menu_counter (snd ?out)) (invocations calls (snd ?out))"
    by (rule Cons.IH)
  moreover have "menu_counter (snd ?out) =
      (if (menu_counter s + 1) mod 21 = 0 \<and> \<not> isl (fst ?out) then 0 else menu_counter s + 1)"
    by (rule create_counter)
  ultimately show ?case
    unfolding call invocations.simps Let_def counter_follows.simps by (rule conjI[rotated])
qed

text \<open>
  Claim C7, as stated, fails: a call whose counter after the increment is a multiple of
  21 does not reset the counter when it raises. With an empty list of appetizers and
  the counter at 20, the call raises \<open>IndexError\<close> and leaves the counter at 21.
\<close>

theorem counter_not_reset_on_error_counterexample:
  "(20 + 1) mod 21 = (0::int) \<and>
   fst (create_daily_menu (\<lambda>k. 0) no_appetizers_catalog
          ((initial_state no_appetizers_catalog)\<lparr>menu_counter := 20\<rparr>)) = Inl IndexError \<and>
   menu_counter (snd (create_daily_menu (\<lambda>k. 0) no_appetizers_catalog
          ((initial_state no_appetizers_catalog)\<lparr>menu_counter := 20\<rparr>))) = 21"
  by (simp add: create_cheat_branch getitem_def choice_def no_appetizers_catalog_def)

text \<open>
  Claim C7, amended. Along every sequence of calls of \<open>create_daily_menu\<close>, each call
  leaves the counter at the old value plus 1, except the calls whose counter after the
  increment is a multiple of 21 and that return their selection: exactly those reset
  it to 0. So the counter never decreases but by that reset. The other operation,
  \<open>generate_daily_menu_if_needed\<close>, leaves the counter as it was or as its one call of
  \<open>create_daily_menu\<close> leaves it.
\<close>

theorem counter_decreases_only_by_reset:
  "counter_follows (menu_counter s) (invocations calls s) \<and>
   (menu_counter (snd (generate_daily_menu_if_needed today rnd menu_info s)) = menu_counter s
    \<or> menu_counter (snd (generate_daily_menu_if_needed today rnd menu_info s)) =
        menu_counter (snd (create_daily_menu rnd menu_info s)))"
proof
  show "counter_follows (menu_counter s) (invocations calls s)"
    by (rule invocations_counter)
  show "menu_counter (snd (generate_daily_menu_if_needed today rnd menu_info s)) = menu_counter s
    \<or> menu_counter (snd (generate_daily_menu_if_needed today rnd menu_info s)) =
        menu_counter (snd (create_daily_menu rnd menu_info s))"
    by (cases "is_cached today s") (simp_all add: generate_hit generate_miss cache_result_counter)
qed

theorem counter_decreases_only_by_reset_witness:
  "counter_follows 19
     (invocations [(\<lambda>k. 0, no_appetizers_catalog), (\<lambda>k. 5, no_appetizers_catalog)] (fresh_state no_appetizers_catalog 19)) \<and>
   invocations [(\<lambda>k. 0, no_appetizers_catalog), (\<lambda>k. 5, no_appetizers_catalog)] (fresh_state no_appetizers_catalog 19) =
     [(Inr [(LABEL_GARNISH, dish ''Rice''), (LABEL_SAUCE, dish ''Garlic Sauce'')], fresh_state no_appetizers_catalog 20),
      (Inl IndexError, fresh_state no_appetizers_catalog 21)]"
proof -
  let ?calls = "[(\<lambda>k. 0, no_appetizers_catalog), (\<lambda>k. 5, no_appetizers_catalog)]"
  have "counter_follows (menu_counter (fresh_state no_appetizers_catalog 19)) (invocations ?calls (fresh_state no_appetizers_catalog 19))"
    using counter_decreases_only_by_reset [of "fresh_state no_appetizers_catalog 19" ?calls] by (rule conjunct1)
  then have follows: "counter_follows 19 (invocations ?calls (fresh_state no_appetizers_catalog 19))"
    by (simp only: fresh_state_counter)
  have first: "create_daily_menu (\<lambda>k. 0) no_appetizers_catalog (fresh_state no_appetizers_catalog 19) =
      (Inr [(LABEL_GARNISH, dish ''Rice''), (LABEL_SAUCE, dish ''Garlic Sauce'')], fresh_state no_appetizers_catalog 20)"
    by (simp add: create_garnish_branch fresh_state_counter fresh_state_bump getitem_def
        choice_def no_appetizers_catalog_def dish_def BORSCHT_def)
  have second: "create_daily_menu (\<lambda>k. 5) no_appetizers_catalog (fresh_state no_appetizers_catalog 20) =
      (Inl IndexError, fresh_state no_appetizers_catalog 21)"
    by (simp add: create_daily_menu_def fresh_state_def initial_state_def getitem_def
        choice_def no_appetizers_catalog_def)
  have "invocations ?calls (fresh_state no_appetizers_catalog 19) =
     [(Inr [(LABEL_GARNISH, dish ''Rice''), (LABEL_SAUCE, dish ''Garlic Sauce'')], fresh_state no_appetizers_catalog 20),
      (Inl IndexError, fresh_state no_appetizers_catalog 21)]"
    by (simp add: first second)
  with follows show ?thesis by (rule conjI)
qed

text \<open>A sequence of calls on a day whose menu is cached.\<close>

lemma requests_cached:
  assumes "is_cached today s" "daily_menu s = Some menu"
  shows "\<forall>out \<in> set (requests today calls s). out = (Inr menu, s)"
  using assms
proof (induction calls)
  case Nil
  show ?case by simp
next
  case (Cons call calls)
  obtain rnd menu_info where call: "call = (rnd, menu_info)" by (cases call)
  have "generate_daily_menu_if_needed today rnd menu_info s = (Inr menu, s)"
    using Cons.prems by (simp add: generate_hit)
  with Cons show ?case by (simp add: call)
qed

text \<open>Calls evaluated on the example data.\<close>

lemma fresh_not_cached: "\<not> is_cached today (fresh_state menu_info c)"
  by (simp add: is_cached_def fresh_state_def initial_state_def)

lemma borscht_call_raises:
  "create_daily_menu (\<lambda>k. 0) borscht_catalog (fresh_state borscht_catalog 3) =
     (Inl (ValueError SOUR_CREAM_NOT_FOUND), fresh_state borscht_catalog 4)"
  by (simp add: create_garnish_branch fresh_state_counter fresh_state_bump getitem_def
      choice_def borscht_catalog_def dish_def BORSCHT_def SOUR_CREAM_def)

lemma borscht_next_call:
  "create_daily_menu (\<lambda>k. 0) borscht_catalog (fresh_state borscht_catalog 4) =
     (Inr [(LABEL_MEAT, dish ''Chicken''), (LABEL_SALAD, dish ''Coleslaw'')],
      fresh_state borscht_catalog 5)"
  by (simp add: create_protein_branch fresh_state_counter fresh_state_bump getitem_def
      choice_def borscht_catalog_def)

lemma warm_is_cached: "is_cached 100 warm_state"
  by (simp add: is_cached_def warm_state_def)

lemma warm_not_cached_next: "\<not> is_cached 101 warm_state"
  by (simp add: is_cached_def warm_state_def)

lemma warm_call:
  "generate_daily_menu_if_needed 100 rnd menu_info warm_state =
     (Inr [(LABEL_MEAT, dish ''Beef''), (LABEL_SALAD, dish ''Coleslaw'')], warm_state)"
  by (simp add: generate_hit warm_is_cached) (simp add: warm_state_def)

lemma example_cheat_call:
  "create_daily_menu (\<lambda>k. 0) example_catalog (fresh_state example_catalog 20) =
     (Inr [(LABEL_CHEAT, dish ''Bruschetta'')], fresh_state example_catalog 0)"
  by (simp add: create_daily_menu_def fresh_state_def initial_state_def getitem_def
      choice_def example_catalog_def)

lemma example_day_after_cheat:
  "create_daily_menu (\<lambda>k. 0) example_catalog
     ((fresh_state example_catalog 0)
        \<lparr>daily_menu := Some [(LABEL_CHEAT, dish ''Bruschetta'')],
         last_generated_date := Some 100\<rparr>) =
     (Inr [(LABEL_MEAT, dish ''Chicken''), (LABEL_SALAD, dish ''Greek salad'')],
      (fresh_state example_catalog 1)
        \<lparr>daily_menu := Some [(LABEL_CHEAT, dish ''Bruschetta'')],
         last_generated_date := Some 100\<rparr>)"
  by (simp add: create_daily_menu_def fresh_state_def initial_state_def getitem_def
      choice_def example_catalog_def)

lemma warm_next_day:
  "create_daily_menu (\<lambda>k. 0) example_catalog warm_state =
     (Inr [(LABEL_GARNISH, dish ''Rice''), (LABEL_SAUCE, dish ''Garlic Sauce'')],
      warm_state\<lparr>menu_counter := 8\<rparr>)"
  by (simp add: create_daily_menu_def warm_state_def getitem_def
      choice_def example_catalog_def dish_def BORSCHT_def)

section \<open>A configuration error and the cache\<close>

text \<open>
  Claim C8. When \<open>create_daily_menu\<close> raises the \<open>ValueError\<close> of the pairing rule,
  the globals it leaves are the old ones with the counter incremented by 1; the cached
  menu and its date are unchanged. When the call was made by
  \<open>generate_daily_menu_if_needed\<close> (nothing was cached for \<open>today\<close>), the exception
  propagates, and a later call on the same date finds nothing cached and calls the
  rotation engine again.
\<close>

theorem configuration_error_keeps_cache:
  assumes "create_daily_menu rnd menu_info s = (Inl (ValueError msg), s1)"
  shows "s1 = s\<lparr>menu_counter := menu_counter s + 1\<rparr> \<and>
         daily_menu s1 = daily_menu s \<and> last_generated_date s1 = last_generated_date s \<and>
         (\<not> is_cached today s \<longrightarrow>
            generate_daily_menu_if_needed today rnd menu_info s = (Inl (ValueError msg), s1) \<and>
            generate_daily_menu_if_needed today rnd' menu_info' s1 =
              cache_result today (create_daily_menu rnd' menu_info' s1))"
proof -
  have out: "fst (create_daily_menu rnd menu_info s) = Inl (ValueError msg)"
       "snd (create_daily_menu rnd menu_info s) = s1"
    using assms by simp_all
  have "menu_counter s1 = menu_counter s + 1"
    using create_counter [of rnd menu_info s] out by simp
  moreover have "s1 = s\<lparr>menu_counter := menu_counter s1\<rparr>"
    using create_frame [of rnd menu_info s] out by simp
  ultimately have s1: "s1 = s\<lparr>menu_counter := menu_counter s + 1\<rparr>" by simp
  then have cache: "daily_menu s1 = daily_menu s" "last_generated_date s1 = last_generated_date s"
    by (metis state.select_convs state.surjective state.update_convs(2))+
  have "generate_daily_menu_if_needed today rnd menu_info s = (Inl (ValueError msg), s1) \<and>
        generate_daily_menu_if_needed today rnd' menu_info' s1 =
          cache_result today (create_daily_menu rnd' menu_info' s1)"
    if miss: "\<not> is_cached today s"
  proof
    show "generate_daily_menu_if_needed today rnd menu_info s = (Inl (ValueError msg), s1)"
      using miss assms by (simp add: generate_miss cache_result_def)
    have "\<not> is_cached today s1"
      using miss cache by (simp add: is_cached_def)
    then show "generate_daily_menu_if_needed today rnd' menu_info' s1 =
        cache_result today (create_daily_menu rnd' menu_info' s1)"
      by (rule generate_miss)
  qed
  with s1 cache show ?thesis by blast
qed

theorem configuration_error_keeps_cache_witness:
  "create_daily_menu (\<lambda>k. 0) borscht_catalog (fresh_state borscht_catalog 3) =
     (Inl (ValueError SOUR_CREAM_NOT_FOUND), fresh_state borscht_catalog 4) \<and>
   fresh_state borscht_catalog 4 = (fresh_state borscht_catalog 3)\<lparr>menu_counter := 3 + 1\<rparr> \<and>
   daily_menu (fresh_state borscht_catalog 4) = None \<and>
   last_generated_date (fresh_state borscht_catalog 4) = None \<and>
   generate_daily_menu_if_needed 100 (\<lambda>k. 0) borscht_catalog (fresh_state borscht_catalog 3) =
     (Inl (ValueError SOUR_CREAM_NOT_FOUND), fresh_state borscht_catalog 4) \<and>
   generate_daily_menu_if_needed 100 (\<lambda>k. 0) borscht_catalog (fresh_state borscht_catalog 4) =
     (Inr [(LABEL_MEAT, dish ''Chicken''), (LABEL_SALAD, dish ''Coleslaw'')],
      (fresh_state borscht_catalog 5)
        \<lparr>daily_menu := Some [(LABEL_MEAT, dish ''Chicken''), (LABEL_SALAD, dish ''Coleslaw'')],
         last_generated_date := Some 100\<rparr>)"
  using configuration_error_keeps_cache
    [OF borscht_call_raises, of 100 "\<lambda>k. 0" borscht_catalog]
  by (simp add: fresh_not_cached borscht_call_raises borscht_next_call cache_result_def
      fresh_state_counter)
    (simp add: fresh_state_def initial_state_def)

section \<open>Calls on the same day\<close>

text \<open>
  Claim C5, as stated, fails in two ways. A first call that raises caches nothing, so
  the second call on the same day runs the rotation engine again: from the counter 3
  with Borscht and no Sour Cream, the first call on day 100 raises and leaves the
  counter at 4, the second returns a menu and leaves it at 5. And when the menu of
  the day is already cached, a call returns it and changes nothing, so two calls run
  the rotation engine not once but never.
\<close>

theorem second_call_after_error_counterexample:
  "generate_daily_menu_if_needed 100 (\<lambda>k. 0) borscht_catalog (fresh_state borscht_catalog 3) =
     (Inl (ValueError SOUR_CREAM_NOT_FOUND), fresh_state borscht_catalog 4) \<and>
   generate_daily_menu_if_needed 100 (\<lambda>k. 0) borscht_catalog (fresh_state borscht_catalog 4) =
     (Inr [(LABEL_MEAT, dish ''Chicken''), (LABEL_SALAD, dish ''Coleslaw'')],
      (fresh_state borscht_catalog 5)
        \<lparr>daily_menu := Some [(LABEL_MEAT, dish ''Chicken''), (LABEL_SALAD, dish ''Coleslaw'')],
         last_generated_date := Some 100\<rparr>) \<and>
   generate_daily_menu_if_needed 100 (\<lambda>k. 0) example_catalog warm_state =
     (Inr [(LABEL_MEAT, dish ''Beef''), (LABEL_SALAD, dish ''Coleslaw'')], warm_state)"
  by (simp add: generate_miss fresh_not_cached borscht_call_raises borscht_next_call
      cache_result_def warm_call)

text \<open>
  Claim C5, amended. When a call on the date \<open>today\<close> returns a selection, the next
  call on that date, and every call of any sequence of calls on that date, returns the
  same selection and leaves all globals unchanged, whatever the draws and the catalog
  argument: the rotation engine is not run again. The first call itself ran the
  rotation engine once when nothing was cached for \<open>today\<close>, and not at all (the
  globals are unchanged) when the menu was already cached.
\<close>

theorem same_day_returns_cached_menu:
  assumes "generate_daily_menu_if_needed today rnd menu_info s = (Inr menu, s1)"
  shows "generate_daily_menu_if_needed today rnd' menu_info' s1 = (Inr menu, s1) \<and>
         (\<forall>out \<in> set (requests today calls s1). out = (Inr menu, s1)) \<and>
         (if is_cached today s then s1 = s
          else cache_result today (create_daily_menu rnd menu_info s) = (Inr menu, s1))"
proof -
  have cached: "is_cached today s1" "daily_menu s1 = Some menu"
    using generate_returned_is_cached [OF assms] by simp_all
  then have again: "generate_daily_menu_if_needed today rnd' menu_info' s1 = (Inr menu, s1)"
    by (simp add: generate_hit)
  have run: "\<forall>out \<in> set (requests today calls s1). out = (Inr menu, s1)"
    using cached by (rule requests_cached)
  have "s1 = s" if "is_cached today s"
    using that assms by (simp add: generate_hit)
  moreover have "cache_result today (create_daily_menu rnd menu_info s) = (Inr menu, s1)"
    if "\<not> is_cached today s"
    using that assms by (simp add: generate_miss)
  ultimately show ?thesis using again run by simp
qed

theorem same_day_returns_cached_menu_witness:
  "generate_daily_menu_if_needed 100 (\<lambda>k. 0) borscht_catalog (fresh_state borscht_catalog 4) =
     (Inr [(LABEL_MEAT, dish ''Chicken''), (LABEL_SALAD, dish ''Coleslaw'')],
      (fresh_state borscht_catalog 5)
        \<lparr>daily_menu := Some [(LABEL_MEAT, dish ''Chicken''), (LABEL_SALAD, dish ''Coleslaw'')],
         last_generated_date := Some 100\<rparr>) \<and>
   generate_daily_menu_if_needed 100 (\<lambda>k. 7) borscht_catalog
     ((fresh_state borscht_catalog 5)
        \<lparr>daily_menu := Some [(LABEL_MEAT, dish ''Chicken''), (LABEL_SALAD, dish ''Coleslaw'')],
         last_generated_date := Some 100\<rparr>) =
     (Inr [(LABEL_MEAT, dish ''Chicken''), (LABEL_SALAD, dish ''Coleslaw'')],
      (fresh_state borscht_catalog 5)
        \<lparr>daily_menu := Some [(LABEL_MEAT, dish ''Chicken''), (LABEL_SALAD, dish ''Coleslaw'')],
         last_generated_date := Some 100\<rparr>)"
proof -
  have first: "generate_daily_menu_if_needed 100 (\<lambda>k. 0) borscht_catalog
      (fresh_state borscht_catalog 4) =
     (Inr [(LABEL_MEAT, dish ''Chicken''), (LABEL_SALAD, dish ''Coleslaw'')],
      (fresh_state borscht_catalog 5)
        \<lparr>daily_menu := Some [(LABEL_MEAT, dish ''Chicken''), (LABEL_SALAD, dish ''Coleslaw'')],
         last_generated_date := Some 100\<rparr>)"
    by (simp add: generate_miss fresh_not_cached borscht_next_call cache_result_def)
  from same_day_returns_cached_menu [OF first, of "\<lambda>k. 7" borscht_catalog "[]"] first
  show ?thesis by blast
qed

section \<open>Day rollover\<close>

text \<open>
  Claim C6, as stated, fails. From the counter 20 with nothing cached, the call on day
  100 returns the cheat meal and resets the counter, and the call on day 101 leaves it
  at 1, not at 22. And when the menu of day 100 is already cached (counter 7), the
  call on day 100 does not run the rotation engine, and the two calls leave the
  counter at 8, not at 9.
\<close>

theorem rollover_counter_counterexample:
  "menu_counter (fresh_state example_catalog 20) = 20 \<and>
   menu_counter (snd (generate_daily_menu_if_needed 101 (\<lambda>k. 0) example_catalog
     (snd (generate_daily_menu_if_needed 100 (\<lambda>k. 0) example_catalog
        (fresh_state example_catalog 20))))) = 1 \<and>
   menu_counter warm_state = 7 \<and>
   menu_counter (snd (generate_daily_menu_if_needed 101 (\<lambda>k. 0) example_catalog
     (snd (generate_daily_menu_if_needed 100 (\<lambda>k. 0) example_catalog warm_state)))) = 8"
proof -
  have first: "generate_daily_menu_if_needed 100 (\<lambda>k. 0) example_catalog
        (fresh_state example_catalog 20) =
      (Inr [(LABEL_CHEAT, dish ''Bruschetta'')],
       (fresh_state example_catalog 0)
         \<lparr>daily_menu := Some [(LABEL_CHEAT, dish ''Bruschetta'')],
          last_generated_date := Some 100\<rparr>)"
    by (simp add: generate_miss fresh_not_cached example_cheat_call cache_result_def)
  have miss: "\<not> is_cached 101 ((fresh_state example_catalog 0)
         \<lparr>daily_menu := Some [(LABEL_CHEAT, dish ''Bruschetta'')],
          last_generated_date := Some 100\<rparr>)"
    by (simp add: is_cached_def)
  have second: "menu_counter (snd (generate_daily_menu_if_needed 101 (\<lambda>k. 0) example_catalog
       ((fresh_state example_catalog 0)
         \<lparr>daily_menu := Some [(LABEL_CHEAT, dish ''Bruschetta'')],
          last_generated_date := Some 100\<rparr>))) = 1"
    by (simp add: generate_miss [OF miss] example_day_after_cheat cache_result_def
        fresh_state_counter)
  have warm: "menu_counter (snd (generate_daily_menu_if_needed 101 (\<lambda>k. 0) example_catalog
       warm_state)) = 8"
    by (simp add: generate_miss warm_not_cached_next warm_next_day cache_result_def)
  show ?thesis
    by (simp add: first second warm warm_call fresh_state_counter) (simp add: warm_state_def)
qed

text \<open>
  Claim C6, amended. When nothing is cached for the dates \<open>D\<close> and \<open>D + 1\<close>, a call on
  \<open>D\<close> followed by a call on \<open>D + 1\<close> runs the rotation engine twice, once in each
  call. With \<open>c\<close> the counter before the first call, the counter afterwards is
  \<open>c + 2\<close>, unless one of the two calls returned the cheat meal: it is 1 when
  \<open>c + 1\<close> is a multiple of 21 and the first call returned, and 0 when \<open>c + 2\<close> is a
  multiple of 21 and the second call returned.
\<close>

theorem day_rollover:
  assumes "\<not> is_cached D s" and "\<not> is_cached (D + 1) s"
    and "generate_daily_menu_if_needed D rnd1 menu_info1 s = (r1, s1)"
    and "generate_daily_menu_if_needed (D + 1) rnd2 menu_info2 s1 = (r2, s2)"
  shows "cache_result D (create_daily_menu rnd1 menu_info1 s) = (r1, s1) \<and>
         cache_result (D + 1) (create_daily_menu rnd2 menu_info2 s1) = (r2, s2) \<and>
         menu_counter s2 =
           (if (menu_counter s + 1) mod 21 = 0 \<and> \<not> isl r1 then 1
            else if (menu_counter s + 2) mod 21 = 0 \<and> \<not> isl r2 then 0
            else menu_counter s + 2)"
proof -
  let ?out1 = "create_daily_menu rnd1 menu_info1 s"
  let ?out2 = "create_daily_menu rnd2 menu_info2 s1"
  have first: "cache_result D ?out1 = (r1, s1)"
    using assms(1,3) by (simp add: generate_miss)
  then have r1: "fst ?out1 = r1" and c1: "menu_counter (snd ?out1) = menu_counter s1"
    using cache_result_fst [of D ?out1] cache_result_counter [of D ?out1] by simp_all
  have miss: "\<not> is_cached (D + 1) s1"
  proof (cases r1)
    case (Inl e)
    with first r1 have "s1 = snd ?out1"
      by (cases ?out1) (auto simp: cache_result_def)
    with assms(2) show ?thesis
      by (simp add: create_keeps_is_cached)
  next
    case (Inr menu)
    with first r1 have "last_generated_date s1 = Some D"
      by (cases ?out1) (auto simp: cache_result_def)
    then show ?thesis by (simp add: is_cached_def)
  qed
  then have second: "cache_result (D + 1) ?out2 = (r2, s2)"
    using assms(4) by (simp add: generate_miss)
  then have r2: "fst ?out2 = r2" and c2: "menu_counter (snd ?out2) = menu_counter s2"
    using cache_result_fst [of "D + 1" ?out2] cache_result_counter [of "D + 1" ?out2]
    by simp_all
  have step1: "menu_counter s1 =
      (if (menu_counter s + 1) mod 21 = 0 \<and> \<not> isl r1 then 0 else menu_counter s + 1)"
    using create_counter [of rnd1 menu_info1 s] r1 c1 by simp
  have step2: "menu_counter s2 =
      (if (menu_counter s1 + 1) mod 21 = 0 \<and> \<not> isl r2 then 0 else menu_counter s1 + 1)"
    using create_counter [of rnd2 menu_info2 s1] r2 c2 by simp
  have arith: "(menu_counter s + 2) mod 21 \<noteq> 0" if "(menu_counter s + 1) mod 21 = 0"
    using that by presburger
  have "menu_counter s2 =
           (if (menu_counter s + 1) mod 21 = 0 \<and> \<not> isl r1 then 1
            else if (menu_counter s + 2) mod 21 = 0 \<and> \<not> isl r2 then 0
            else menu_counter s + 2)"
    using step1 step2 arith by (auto simp: add.assoc)
  with first second show ?thesis by simp
qed

theorem day_rollover_witness:
  "\<not> is_cached 100 (fresh_state example_catalog 5) \<and>
   \<not> is_cached (100 + 1) (fresh_state example_catalog 5) \<and>
   menu_counter (snd (generate_daily_menu_if_needed (100 + 1) (\<lambda>k. 3) example_catalog
     (snd (generate_daily_menu_if_needed 100 (\<lambda>k. 2) example_catalog
        (fresh_state example_catalog 5))))) = 5 + 2"
proof -
  let ?s = "fresh_state example_catalog 5"
  let ?out1 = "generate_daily_menu_if_needed 100 (\<lambda>k. 2) example_catalog ?s"
  let ?out2 = "generate_daily_menu_if_needed (100 + 1) (\<lambda>k. 3) example_catalog (snd ?out1)"
  have m1: "\<not> is_cached 100 ?s" and m2: "\<not> is_cached (100 + 1) ?s"
    by (rule fresh_not_cached)+
  have e1: "?out1 = (fst ?out1, snd ?out1)" and e2: "?out2 = (fst ?out2, snd ?out2)"
    by simp_all
  from day_rollover [OF m1 m2 e1 e2]
  have "menu_counter (snd ?out2) = 5 + 2"
    by (simp add: fresh_state_counter)
  with m1 m2 show ?thesis by blast
qed

end
